theory Spec2Isabelle
  imports Main "HOL-Library.Sublist"
begin

section \<open>Validation errors\<close>

text \<open>
  The members of \<open>ProductErrorCode\<close> that the mutation names. The enumeration itself is
  declared in \<open>saleor/product/error_codes.py\<close>; a member the mutation does not name (a
  collaborator may raise one) is \<open>OTHER_CODE\<close> with its name.
\<close>

datatype ProductErrorCode =
    INVALID
  | REQUIRED
  | UNIQUE
  | ATTRIBUTE_CANNOT_BE_ASSIGNED
  | OTHER_CODE string

type_synonym global_id = string

text \<open>
  Django's \<open>ValidationError\<close>: either one message with a code and its \<open>params\<close>
  dictionary (here the only value ever stored is a set of global IDs), or a dictionary
  that puts an error under a field name. Every dictionary the mutation builds has one key.
\<close>

datatype ValidationError =
    Error string ProductErrorCode "(string \<times> global_id set) list"
  | FieldErrors string ValidationError

section \<open>Data model\<close>

record Attribute =
  attribute_pk :: int
  value_required :: bool

record ProductType =
  has_variants :: bool
  variant_attributes :: "Attribute list"

text \<open>
  \<open>default_variant\<close> is the foreign key to the variant (its primary key), \<open>None\<close> when
  the product has no default variant.
\<close>

record Product =
  product_pk :: nat
  product_type :: ProductType
  default_variant :: "nat option"
  search_index_dirty :: bool

record ProductVariant =
  pk :: "nat option"
  name :: "string option"
  track_inventory :: bool
  product :: Product

text \<open>\<open>AttributeValueInput\<close>: the \<open>id\<close> key and the submitted raw values.\<close>

record AttributeValueInput =
  input_id :: global_id
  input_values :: "string list"

record AttrValuesInput =
  global_id :: global_id
  values_cleaned :: "string list"

type_synonym T_INPUT_ITEM = "Attribute \<times> AttrValuesInput"

record StockInput =
  warehouse :: global_id
  quantity :: int

record PreorderSettingsInput =
  global_threshold :: "int option"
  end_date :: "nat option"

text \<open>
  The \<open>cleaned_input\<close> dictionary, one field per key of \<open>ProductVariantCreateInput\<close>
  (the key \<open>k\<close> is the field \<open>input_k\<close>). A field is \<open>None\<close> when \<open>.get\<close> on the key
  gives \<open>None\<close>; \<open>input_sku\<close> also tells a missing key (\<open>None\<close>) from a key that holds
  null (\<open>Some None\<close>), because the code tests \<open>"sku" in cleaned_input\<close>. The key
  \<open>attributes\<close> holds the submitted \<open>AttributeValueInput\<close> list before
  \<open>clean_attributes\<close> and the cleaned \<open>T_INPUT_MAP\<close> after it, hence the type
  parameter. Weights are counted in a fixed smallest unit.
\<close>

record 'a cleaned_input =
  input_attributes :: "'a list option"
  input_product :: "Product option"
  input_stocks :: "StockInput list option"
  input_sku :: "string option option"
  input_name :: "string option"
  input_track_inventory :: "bool option"
  input_weight :: "int option"
  input_quantity_limit_per_customer :: "int option"
  input_preorder :: "PreorderSettingsInput option"
  input_external_reference :: "string option"

text \<open>Assigning to \<open>cleaned_input["attributes"]\<close>; every other key keeps its value.\<close>

definition assign_attributes :: "'a cleaned_input \<Rightarrow> 'b list option \<Rightarrow> 'b cleaned_input" where
  "assign_attributes ci v =
     \<lparr> input_attributes = v,
       input_product = input_product ci,
       input_stocks = input_stocks ci,
       input_sku = input_sku ci,
       input_name = input_name ci,
       input_track_inventory = input_track_inventory ci,
       input_weight = input_weight ci,
       input_quantity_limit_per_customer = input_quantity_limit_per_customer ci,
       input_preorder = input_preorder ci,
       input_external_reference = input_external_reference ci \<rparr>"

text \<open>Python's truth value of a list that may be \<open>None\<close>: true when it has an element.\<close>

fun truthy :: "'a list option \<Rightarrow> bool" where
  "truthy None = False"
| "truthy (Some []) = False"
| "truthy (Some (x # xs)) = True"

text \<open>\<open>xs or []\<close>.\<close>

fun or_empty :: "'a list option \<Rightarrow> 'a list" where
  "or_empty None = []"
| "or_empty (Some xs) = xs"

text \<open>\<open>sep.join(xs)\<close> on strings.\<close>

fun join :: "string \<Rightarrow> string list \<Rightarrow> string" where
  "join sep [] = []"
| "join sep [x] = x"
| "join sep (x # y # ys) = x @ sep @ join sep (y # ys)"

section \<open>Collaborators\<close>

text \<open>
  What the mutation calls and this file does not define: the base class
  (\<open>super().clean_input\<close>, \<open>get_nodes_or_error\<close>), the cleaner module, the attribute
  assignment mixin, the stock utilities, the shop settings and the
  \<open>Node.to_global_id\<close> of graphene. They are parameters of the model. A collaborator
  that can raise \<open>ValidationError\<close> returns a sum; one that writes rows of its own
  (stocks, attribute links) transforms the store component \<open>'x\<close> that belongs to the
  collaborators, and touches neither the product rows nor the event log.
\<close>

record ('i, 'd, 'x) collaborators =
  base_clean_input :: "'i \<Rightarrow> ProductVariant \<Rightarrow> 'd \<Rightarrow> ValidationError + AttributeValueInput cleaned_input"
  clean_weight :: "AttributeValueInput cleaned_input \<Rightarrow> ValidationError + AttributeValueInput cleaned_input"
  clean_quantity_limit :: "AttributeValueInput cleaned_input \<Rightarrow> ValidationError + AttributeValueInput cleaned_input"
  clean_preorder_settings :: "T_INPUT_ITEM cleaned_input \<Rightarrow> ValidationError + T_INPUT_ITEM cleaned_input"
  clean_variant_sku :: "string option \<Rightarrow> string option"
  to_global_id :: "string \<Rightarrow> int \<Rightarrow> global_id"
  get_used_variants_attribute_values :: "Product \<Rightarrow> (global_id \<times> string list) list list"
  attribute_clean_input :: "AttributeValueInput list \<Rightarrow> Attribute list \<Rightarrow> ValidationError + T_INPUT_ITEM list"
  validate_duplicated_attribute_values ::
    "T_INPUT_ITEM list \<Rightarrow> (global_id \<times> string list) list list \<Rightarrow> ValidationError + unit"
  get_track_inventory_by_default :: "'i \<Rightarrow> bool option"
  get_nodes_or_error :: "global_id list \<Rightarrow> string \<Rightarrow> ValidationError + global_id list"
  create_stocks :: "ProductVariant \<Rightarrow> StockInput list \<Rightarrow> global_id list \<Rightarrow> 'x \<Rightarrow> ValidationError + 'x"
  attribute_save :: "ProductVariant \<Rightarrow> T_INPUT_ITEM list \<Rightarrow> 'x \<Rightarrow> ValidationError + 'x"
  generate_variant_name :: "ProductVariant \<Rightarrow> string option \<Rightarrow> 'x \<Rightarrow> string"

text \<open>
  Modelled from the spec: \<open>get_duplicated_values\<close> (\<open>saleor/graphql/core/utils\<close>) is not
  among the sources. The spec speaks of "the duplicated warehouse IDs": the values that
  occur more than once. It is a collection without repetition; the order in which
  \<open>join\<close> walks it is fixed here as the order of last occurrence.
\<close>

definition get_duplicated_values :: "'a list \<Rightarrow> 'a list" where
  "get_duplicated_values vs = remdups (filter (\<lambda>v. 1 < count_list vs v) vs)"

section \<open>The mutation\<close>

definition get_product :: "'a cleaned_input \<Rightarrow> ValidationError + Product" where
  "get_product cleaned_input =
     (case input_product cleaned_input of
        None \<Rightarrow> Inl (FieldErrors ''product'' (Error ''Product cannot be set empty.'' INVALID []))
      | Some product' \<Rightarrow> Inr product')"

definition check_for_duplicates_in_stocks :: "StockInput list \<Rightarrow> ValidationError + unit" where
  "check_for_duplicates_in_stocks stocks_data =
     (let warehouse_ids = map warehouse stocks_data;
          duplicates = get_duplicated_values warehouse_ids
      in if duplicates \<noteq> []
         then Inl (FieldErrors ''stocks''
                (Error (''Duplicated warehouse ID: '' @ join '', '' duplicates) UNIQUE []))
         else Inr ())"

text \<open>
  The set comprehension at the head of \<open>clean_attributes\<close>: the global IDs of the
  product type's variant attributes.
\<close>

definition variant_attributes_ids ::
  "('i, 'd, 'x) collaborators \<Rightarrow> ProductType \<Rightarrow> global_id set" where
  "variant_attributes_ids env pt =
     set (map (\<lambda>attr. to_global_id env ''Attribute'' (attribute_pk attr)) (variant_attributes pt))"

text \<open>
  \<open>clean_attributes\<close>. The \<open>try\<close> block covers the configurable branch only, so only
  the errors raised there are put under the field \<open>attributes\<close>. \<open>len(s) > 0\<close> on a set
  is \<open>s \<noteq> {}\<close>. The queryset \<open>variant_attributes.filter(value_required=True)\<close> is true
  when it has a row. On the paths that do not assign to \<open>cleaned_input["attributes"]\<close>
  the submitted list is \<open>None\<close> or empty, and stays so.
\<close>

definition clean_attributes ::
  "('i, 'd, 'x) collaborators \<Rightarrow> AttributeValueInput cleaned_input \<Rightarrow> ProductVariant
     \<Rightarrow> ValidationError + T_INPUT_ITEM cleaned_input" where
  "clean_attributes env cleaned_input instance =
     (case get_product cleaned_input of
        Inl e \<Rightarrow> Inl e
      | Inr product' \<Rightarrow>
          (let product_type' = product_type product';
               used_attribute_values = get_used_variants_attribute_values env product';
               variant_attributes_ids' = variant_attributes_ids env product_type';
               attributes = input_attributes cleaned_input;
               attributes_ids = set (map input_id (or_empty attributes));
               invalid_attributes = attributes_ids - variant_attributes_ids'
           in if invalid_attributes \<noteq> {}
              then Inl (Error ''Given attributes are not a variant attributes.''
                          ATTRIBUTE_CANNOT_BE_ASSIGNED [(''attributes'', invalid_attributes)])
              else if has_variants product_type'
              then (case (if truthy attributes
                          then (case attribute_clean_input env (or_empty attributes)
                                       (variant_attributes product_type') of
                                  Inl e \<Rightarrow> Inl e
                                | Inr cleaned_attributes \<Rightarrow>
                                    (case validate_duplicated_attribute_values env
                                            cleaned_attributes used_attribute_values of
                                       Inl e \<Rightarrow> Inl e
                                     | Inr _ \<Rightarrow>
                                         Inr (assign_attributes cleaned_input
                                                (Some cleaned_attributes))))
                          else if filter value_required (variant_attributes product_type') \<noteq> []
                          then Inl (Error ''All required attributes must take a value.'' REQUIRED [])
                          else Inr (assign_attributes cleaned_input
                                      (map_option (\<lambda>_. []) attributes))) of
                      Inl e \<Rightarrow> Inl (FieldErrors ''attributes'' e)
                    | Inr r \<Rightarrow> Inr r)
              else if truthy attributes
              then Inl (Error ''Cannot assign attributes for product type without variants''
                          INVALID [])
              else Inr (assign_attributes cleaned_input (map_option (\<lambda>_. []) attributes))))"

definition set_track_inventory ::
  "('i, 'd, 'x) collaborators \<Rightarrow> 'i \<Rightarrow> 'z ProductVariant_scheme \<Rightarrow> 'a cleaned_input
     \<Rightarrow> 'z ProductVariant_scheme" where
  "set_track_inventory env info instance cleaned_input =
     (let track_inventory_by_default = get_track_inventory_by_default env info;
          track_inventory' = input_track_inventory cleaned_input
      in case track_inventory_by_default of
           None \<Rightarrow> instance
         | Some d \<Rightarrow>
             instance\<lparr>track_inventory :=
               (case track_inventory' of None \<Rightarrow> d | Some t \<Rightarrow> t)\<rparr>)"

text \<open>
  \<open>clean_input\<close>: the steps run in the order of the source, and a step that raises ends
  the call with its error. The stocks check runs only on a non-empty list
  (\<open>if stocks := cleaned_input.get("stocks")\<close>).
\<close>

definition clean_input ::
  "('i, 'd, 'x) collaborators \<Rightarrow> 'i \<Rightarrow> ProductVariant \<Rightarrow> 'd
     \<Rightarrow> ValidationError + T_INPUT_ITEM cleaned_input" where
  "clean_input env info instance data =
     (case base_clean_input env info instance data of
        Inl e \<Rightarrow> Inl e
      | Inr c0 \<Rightarrow>
     (case clean_weight env c0 of
        Inl e \<Rightarrow> Inl e
      | Inr c1 \<Rightarrow>
     (case clean_quantity_limit env c1 of
        Inl e \<Rightarrow> Inl e
      | Inr c2 \<Rightarrow>
     (case (if truthy (input_stocks c2)
            then check_for_duplicates_in_stocks (or_empty (input_stocks c2))
            else Inr ()) of
        Inl e \<Rightarrow> Inl e
      | Inr _ \<Rightarrow>
     (case clean_attributes env c2 instance of
        Inl e \<Rightarrow> Inl e
      | Inr c3 \<Rightarrow>
          clean_preorder_settings env
            (case input_sku c3 of
               None \<Rightarrow> c3
             | Some sku \<Rightarrow> c3\<lparr>input_sku := Some (clean_variant_sku env sku)\<rparr>))))))"

section \<open>The store and \<open>save\<close>\<close>

text \<open>
  The rows the mutation itself writes: the variant row (\<open>instance.save()\<close>) and two
  columns of the product row (\<open>instance.product.save(update_fields=...)\<close>; the timestamp
  \<open>updated_at\<close> is outside the model). \<open>collaborator_rows\<close> is what the stock and attribute
  collaborators write. \<open>events\<close> is the log of calls to the plugin manager.
\<close>

record VariantRow =
  row_name :: "string option"
  row_track_inventory :: bool
  row_product_id :: nat

record ProductRow =
  row_default_variant :: "nat option"
  row_search_index_dirty :: bool

datatype event =
    product_variant_created ProductVariant
  | product_variant_updated ProductVariant

record 'x store =
  variant_table :: "nat \<rightharpoonup> VariantRow"
  product_table :: "nat \<rightharpoonup> ProductRow"
  next_variant_pk :: nat
  collaborator_rows :: 'x
  events :: "event list"

datatype failure = Validation ValidationError | DatabaseError

definition row_of :: "ProductVariant \<Rightarrow> VariantRow" where
  "row_of v =
     \<lparr> row_name = name v,
       row_track_inventory = track_inventory v,
       row_product_id = product_pk (product v) \<rparr>"

text \<open>
  \<open>instance.save()\<close>: a variant without primary key is inserted under the next key of
  the table and receives it; a variant with a key overwrites its row.
\<close>

definition model_save :: "ProductVariant \<Rightarrow> 'x store \<Rightarrow> ProductVariant \<times> 'x store" where
  "model_save v s =
     (case pk v of
        None \<Rightarrow>
          (let k = next_variant_pk s
           in (v\<lparr>pk := Some k\<rparr>,
               s\<lparr>variant_table := (variant_table s)(k \<mapsto> row_of v),
                 next_variant_pk := Suc k\<rparr>))
      | Some k \<Rightarrow> (v, s\<lparr>variant_table := (variant_table s)(k \<mapsto> row_of v)\<rparr>))"

text \<open>
  \<open>product.save(update_fields=fs)\<close>: an UPDATE of the named columns of the product's
  row; Django raises \<open>DatabaseError\<close> when the row does not exist.
\<close>

definition product_save :: "Product \<Rightarrow> string list \<Rightarrow> 'x store \<Rightarrow> failure + 'x store" where
  "product_save p update_fields s =
     (case product_table s (product_pk p) of
        None \<Rightarrow> Inl DatabaseError
      | Some r \<Rightarrow>
          Inr (s\<lparr>product_table := (product_table s)(product_pk p \<mapsto>
                 r\<lparr>row_default_variant :=
                     (if ''default_variant'' \<in> set update_fields
                      then default_variant p else row_default_variant r),
                   row_search_index_dirty :=
                     (if ''search_index_dirty'' \<in> set update_fields
                      then search_index_dirty p else row_search_index_dirty r)\<rparr>)\<rparr>))"

definition create_variant_stocks ::
  "('i, 'd, 'x) collaborators \<Rightarrow> ProductVariant \<Rightarrow> StockInput list \<Rightarrow> 'x store
     \<Rightarrow> failure + 'x store" where
  "create_variant_stocks env variant stocks s =
     (let warehouse_ids = map warehouse stocks
      in case get_nodes_or_error env warehouse_ids ''warehouse'' of
           Inl e \<Rightarrow> Inl (Validation e)
         | Inr warehouses \<Rightarrow>
             (case create_stocks env variant stocks warehouses (collaborator_rows s) of
                Inl e \<Rightarrow> Inl (Validation e)
              | Inr x \<Rightarrow> Inr (s\<lparr>collaborator_rows := x\<rparr>)))"

text \<open>
  Modelled from the spec: \<open>generate_and_set_variant_name\<close>
  (\<open>saleor/product/utils/variants.py\<close>) is not among the sources. The spec: "if no
  explicit name was given, derive and set one from SKU and attribute values". The
  derivation is the collaborator \<open>generate_variant_name\<close>, which reads the attribute
  links; the name is set on the variant and written to its row.
\<close>

definition generate_and_set_variant_name ::
  "('i, 'd, 'x) collaborators \<Rightarrow> ProductVariant \<Rightarrow> string option \<Rightarrow> 'x store
     \<Rightarrow> ProductVariant \<times> 'x store" where
  "generate_and_set_variant_name env variant sku s =
     (let variant' = variant\<lparr>name := Some (generate_variant_name env variant sku (collaborator_rows s))\<rparr>
      in (variant',
          s\<lparr>variant_table :=
              (case pk variant' of
                 None \<Rightarrow> variant_table s
               | Some k \<Rightarrow> (variant_table s)(k \<mapsto> row_of variant'))\<rparr>))"

text \<open>
  Modelled from the spec: \<open>call_event\<close> is a method of the base class, which is not
  among the sources. The spec: "emit the corresponding domain event (\<open>variant_created\<close>
  or \<open>variant_updated\<close>) to all registered listeners". \<open>call_event(f, instance)\<close> hands
  \<open>f(instance)\<close> to the plugin manager: the event joins the log.
\<close>

definition call_event :: "(ProductVariant \<Rightarrow> event) \<Rightarrow> ProductVariant \<Rightarrow> 'x store \<Rightarrow> 'x store" where
  "call_event event_to_call instance s = s\<lparr>events := events s @ [event_to_call instance]\<rparr>"

text \<open>\<open>not instance.name\<close>: the name is \<open>None\<close> or the empty string.\<close>

fun no_name :: "string option \<Rightarrow> bool" where
  "no_name None = True"
| "no_name (Some n) = (n = [])"

text \<open>
  \<open>save\<close>. The body of \<open>traced_atomic_transaction\<close> either runs to its end or raises;
  a failure returns no store, so the caller keeps the one it had: nothing of a failed
  save is written. \<open>not instance.product.default_variant\<close> holds exactly when the
  reference is \<open>None\<close> (a model instance is always true).
\<close>

definition save ::
  "('i, 'd, 'x) collaborators \<Rightarrow> 'i \<Rightarrow> ProductVariant \<Rightarrow> T_INPUT_ITEM cleaned_input
     \<Rightarrow> 'x store \<Rightarrow> failure + ProductVariant \<times> 'x store" where
  "save env info instance cleaned_input s =
     (let new_variant = (pk instance = None);
          instance1 = set_track_inventory env info instance cleaned_input;
          (instance2, s1) = model_save instance1 s
      in case (if default_variant (product instance2) = None
               then (let instance3 =
                           instance2\<lparr>product := (product instance2)\<lparr>default_variant := pk instance2\<rparr>\<rparr>
                     in case product_save (product instance3)
                               [''default_variant'', ''updated_at''] s1 of
                          Inl e \<Rightarrow> Inl e
                        | Inr s2 \<Rightarrow> Inr (instance3, s2))
               else Inr (instance2, s1)) of
           Inl e \<Rightarrow> Inl e
         | Inr (instance3, s2) \<Rightarrow>
        (case (if truthy (input_stocks cleaned_input)
               then create_variant_stocks env instance3 (or_empty (input_stocks cleaned_input)) s2
               else Inr s2) of
           Inl e \<Rightarrow> Inl e
         | Inr s3 \<Rightarrow>
        (case (if truthy (input_attributes cleaned_input)
               then (case attribute_save env instance3 (or_empty (input_attributes cleaned_input))
                            (collaborator_rows s3) of
                       Inl e \<Rightarrow> Inl (Validation e)
                     | Inr x \<Rightarrow> Inr (s3\<lparr>collaborator_rows := x\<rparr>))
               else Inr s3) of
           Inl e \<Rightarrow> Inl e
         | Inr s4 \<Rightarrow>
        (let (instance4, s5) =
               (if no_name (name instance3)
                then generate_and_set_variant_name env instance3
                       (case input_sku cleaned_input of None \<Rightarrow> None | Some sku \<Rightarrow> sku) s4
                else (instance3, s4));
             instance5 = instance4\<lparr>product := (product instance4)\<lparr>search_index_dirty := True\<rparr>\<rparr>
         in case product_save (product instance5) [''search_index_dirty''] s5 of
              Inl e \<Rightarrow> Inl e
            | Inr s6 \<Rightarrow>
                Inr (instance5,
                     call_event (if new_variant then product_variant_created
                                 else product_variant_updated) instance5 s6)))))"

text \<open>
  The blocks of \<open>save\<close>, named for the proofs: the default-variant block, the stocks
  block, the attributes block, the name block and the assignment of
  \<open>search_index_dirty\<close>. The lemma \<open>save_unfold\<close> below shows that \<open>save\<close> is their
  composition.
\<close>

definition default_step ::
  "ProductVariant \<Rightarrow> 'x store \<Rightarrow> failure + ProductVariant \<times> 'x store" where
  "default_step instance2 s1 =
     (if default_variant (product instance2) = None
      then (let instance3 =
                  instance2\<lparr>product := (product instance2)\<lparr>default_variant := pk instance2\<rparr>\<rparr>
            in case product_save (product instance3) [''default_variant'', ''updated_at''] s1 of
                 Inl e \<Rightarrow> Inl e
               | Inr s2 \<Rightarrow> Inr (instance3, s2))
      else Inr (instance2, s1))"

definition stocks_step ::
  "('i, 'd, 'x) collaborators \<Rightarrow> ProductVariant \<Rightarrow> T_INPUT_ITEM cleaned_input \<Rightarrow> 'x store
     \<Rightarrow> failure + 'x store" where
  "stocks_step env instance3 cleaned_input s2 =
     (if truthy (input_stocks cleaned_input)
      then create_variant_stocks env instance3 (or_empty (input_stocks cleaned_input)) s2
      else Inr s2)"

definition attributes_step ::
  "('i, 'd, 'x) collaborators \<Rightarrow> ProductVariant \<Rightarrow> T_INPUT_ITEM cleaned_input \<Rightarrow> 'x store
     \<Rightarrow> failure + 'x store" where
  "attributes_step env instance3 cleaned_input s3 =
     (if truthy (input_attributes cleaned_input)
      then (case attribute_save env instance3 (or_empty (input_attributes cleaned_input))
                   (collaborator_rows s3) of
              Inl e \<Rightarrow> Inl (Validation e)
            | Inr x \<Rightarrow> Inr (s3\<lparr>collaborator_rows := x\<rparr>))
      else Inr s3)"

definition name_step ::
  "('i, 'd, 'x) collaborators \<Rightarrow> ProductVariant \<Rightarrow> T_INPUT_ITEM cleaned_input \<Rightarrow> 'x store
     \<Rightarrow> ProductVariant \<times> 'x store" where
  "name_step env instance3 cleaned_input s4 =
     (if no_name (name instance3)
      then generate_and_set_variant_name env instance3
             (case input_sku cleaned_input of None \<Rightarrow> None | Some sku \<Rightarrow> sku) s4
      else (instance3, s4))"

definition dirty :: "ProductVariant \<Rightarrow> ProductVariant" where
  "dirty instance4 = instance4\<lparr>product := (product instance4)\<lparr>search_index_dirty := True\<rparr>\<rparr>"

section \<open>A reference instance of the collaborators\<close>

text \<open>
  Modelled from the spec: the cleaner module, the attribute assignment mixin, the stock
  utilities and the base class are not among the sources. This section gives one
  instance of these parameters, on which the theorems below are run at concrete inputs;
  each function follows the sentence of the spec quoted above it (messages and field
  names, which the spec does not give, are chosen freely).
\<close>

fun decimal :: "nat \<Rightarrow> string" where
  "decimal n = (if n < 10 then [''0123456789'' ! n]
                else decimal (n div 10) @ [''0123456789'' ! (n mod 10)])"

declare decimal.simps [simp del]

text \<open>
  The text that \<open>Node.to_global_id\<close> encodes: the type name, a colon, the key (the
  encoding itself, which is one-to-one, is left out of the instance).
\<close>

definition ref_to_global_id :: "string \<Rightarrow> int \<Rightarrow> global_id" where
  "ref_to_global_id type_name k = type_name @ '':'' @ decimal (nat k)"

text \<open>"Weight: must be a non-negative physical quantity if present".\<close>

definition ref_clean_weight :: "'a cleaned_input \<Rightarrow> ValidationError + 'a cleaned_input" where
  "ref_clean_weight ci =
     (case input_weight ci of
        None \<Rightarrow> Inr ci
      | Some w \<Rightarrow>
          if w < 0
          then Inl (FieldErrors ''weight'' (Error ''Weight cannot be negative.'' INVALID []))
          else Inr ci)"

text \<open>"Quantity limit per checkout: must be a positive integer if present".\<close>

definition ref_clean_quantity_limit :: "'a cleaned_input \<Rightarrow> ValidationError + 'a cleaned_input" where
  "ref_clean_quantity_limit ci =
     (case input_quantity_limit_per_customer ci of
        None \<Rightarrow> Inr ci
      | Some q \<Rightarrow>
          if q < 1
          then Inl (FieldErrors ''quantity_limit_per_customer''
                 (Error ''Quantity limit must be positive.'' INVALID []))
          else Inr ci)"

text \<open>
  "Preorder settings: if present, end date (if given) must be in the future relative to
  call time; global threshold must be non-negative if given". The call time is \<open>now\<close>.
\<close>

definition ref_clean_preorder_settings ::
  "nat \<Rightarrow> 'a cleaned_input \<Rightarrow> ValidationError + 'a cleaned_input" where
  "ref_clean_preorder_settings now ci =
     (case input_preorder ci of
        None \<Rightarrow> Inr ci
      | Some p \<Rightarrow>
          if (case end_date p of None \<Rightarrow> False | Some d \<Rightarrow> d \<le> now)
          then Inl (FieldErrors ''preorder''
                 (Error ''End date must be in the future.'' INVALID []))
          else if (case global_threshold p of None \<Rightarrow> False | Some g \<Rightarrow> g < 0)
          then Inl (FieldErrors ''preorder''
                 (Error ''Global threshold cannot be negative.'' INVALID []))
          else Inr ci)"

text \<open>"SKU: normalized (e.g., trimmed)": leading and trailing spaces are dropped.\<close>

definition ref_clean_variant_sku :: "string option \<Rightarrow> string option" where
  "ref_clean_variant_sku sku =
     map_option (\<lambda>t. rev (dropWhile (\<lambda>c. c = CHR '' '') (rev (dropWhile (\<lambda>c. c = CHR '' '') t)))) sku"

text \<open>
  "clean(rawAttributeInputs, allowedAttributes) -> validatedAttributeMap": every
  submitted input is paired with the allowed attribute of its ID; a value-required
  attribute that is submitted without a value fails with REQUIRED.
\<close>

definition ref_attribute_clean_input ::
  "AttributeValueInput list \<Rightarrow> Attribute list \<Rightarrow> ValidationError + T_INPUT_ITEM list" where
  "ref_attribute_clean_input attributes attributes_qs =
     (let cleaned =
            concat (map (\<lambda>i. map (\<lambda>attr. (attr, \<lparr>global_id = input_id i, values_cleaned = input_values i\<rparr>))
                                 (filter (\<lambda>attr. ref_to_global_id ''Attribute'' (attribute_pk attr) = input_id i)
                                    attributes_qs))
                        attributes)
      in if list_ex (\<lambda>(attr, v). value_required attr \<and> values_cleaned v = []) cleaned
         then Inl (Error ''All required attributes must take a value.'' REQUIRED [])
         else Inr cleaned)"

text \<open>
  "reject if an identical value combination is already used by another variant of the
  same product".
\<close>

definition ref_validate_duplicated_attribute_values ::
  "T_INPUT_ITEM list \<Rightarrow> (global_id \<times> string list) list list \<Rightarrow> ValidationError + unit" where
  "ref_validate_duplicated_attribute_values cleaned used =
     (if map (\<lambda>(attr, v). (global_id v, values_cleaned v)) cleaned \<in> set used
      then Inl (Error ''Duplicated attribute values for product variant.''
                  (OTHER_CODE ''DUPLICATED_INPUT_ITEM'') [])
      else Inr ())"

text \<open>
  The rows of the collaborators: stock rows (variant, warehouse, quantity) and the
  attribute links of each variant.
\<close>

type_synonym ref_rows = "(nat option \<times> global_id \<times> int) list \<times> (nat option \<times> T_INPUT_ITEM list) list"

text \<open>
  "resolve its warehouse reference to a warehouse entity (fails with NOT_FOUND if
  unresolvable)": the warehouses that exist are \<open>known\<close>.
\<close>

definition ref_get_nodes_or_error ::
  "global_id list \<Rightarrow> global_id list \<Rightarrow> string \<Rightarrow> ValidationError + global_id list" where
  "ref_get_nodes_or_error known ids field =
     (if list_all (\<lambda>i. i \<in> set known) ids
      then Inr ids
      else Inl (FieldErrors field (Error ''Could not resolve to a node.'' (OTHER_CODE ''NOT_FOUND'') [])))"

text \<open>"create one stock record per (variant, warehouse) pair with the given quantity".\<close>

definition ref_create_stocks ::
  "ProductVariant \<Rightarrow> StockInput list \<Rightarrow> global_id list \<Rightarrow> ref_rows \<Rightarrow> ValidationError + ref_rows" where
  "ref_create_stocks variant stocks warehouses rows =
     Inr (fst rows @ map (\<lambda>(st, w). (pk variant, w, quantity st)) (zip stocks warehouses), snd rows)"

text \<open>
  "persists the attribute-value links, replacing prior links for each attribute key".
\<close>

definition ref_attribute_save ::
  "ProductVariant \<Rightarrow> T_INPUT_ITEM list \<Rightarrow> ref_rows \<Rightarrow> ValidationError + ref_rows" where
  "ref_attribute_save variant attributes rows =
     Inr (fst rows, (pk variant, attributes) # filter (\<lambda>(k, _). k \<noteq> pk variant) (snd rows))"

text \<open>"derive and set one from SKU and attribute values".\<close>

definition ref_generate_variant_name :: "ProductVariant \<Rightarrow> string option \<Rightarrow> ref_rows \<Rightarrow> string" where
  "ref_generate_variant_name variant sku rows =
     (let vs = concat (map (\<lambda>(k, links). if k = pk variant
                                           then concat (map (\<lambda>(attr, v). values_cleaned v) links)
                                           else []) (snd rows))
      in if vs = [] then (case sku of None \<Rightarrow> ''Variant'' | Some t \<Rightarrow> t) else join '' / '' vs)"

text \<open>
  The instance: the request context \<open>info\<close> is the shop setting itself, the raw data is
  the input as graphene delivers it, and the base class passes it on.
\<close>

definition ref_env ::
  "(bool option, AttributeValueInput cleaned_input, ref_rows) collaborators" where
  "ref_env =
     \<lparr> base_clean_input = (\<lambda>info instance data. Inr data),
       clean_weight = ref_clean_weight,
       clean_quantity_limit = ref_clean_quantity_limit,
       clean_preorder_settings = ref_clean_preorder_settings 0,
       clean_variant_sku = ref_clean_variant_sku,
       to_global_id = ref_to_global_id,
       get_used_variants_attribute_values = (\<lambda>p. []),
       attribute_clean_input = ref_attribute_clean_input,
       validate_duplicated_attribute_values = ref_validate_duplicated_attribute_values,
       get_track_inventory_by_default = (\<lambda>info. info),
       get_nodes_or_error = ref_get_nodes_or_error [''W1'', ''W2''],
       create_stocks = ref_create_stocks,
       attribute_save = ref_attribute_save,
       generate_variant_name = ref_generate_variant_name \<rparr>"

text \<open>The objects of the examples.\<close>

definition color :: Attribute where
  "color = \<lparr> attribute_pk = 1, value_required = True \<rparr>"

definition configurable :: ProductType where
  "configurable = \<lparr> has_variants = True, variant_attributes = [color] \<rparr>"

definition simple :: ProductType where
  "simple = \<lparr> has_variants = False, variant_attributes = [color] \<rparr>"

definition plain :: ProductType where
  "plain = \<lparr> has_variants = False, variant_attributes = [] \<rparr>"

definition shirt :: "ProductType \<Rightarrow> Product" where
  "shirt pt = \<lparr> product_pk = 10, product_type = pt, default_variant = None,
                search_index_dirty = False \<rparr>"

definition new_instance :: "Product \<Rightarrow> ProductVariant" where
  "new_instance p = \<lparr> pk = None, name = None, track_inventory = True, product = p \<rparr>"

definition input_of ::
  "Product option \<Rightarrow> 'a list option \<Rightarrow> StockInput list option \<Rightarrow> 'a cleaned_input" where
  "input_of p attrs stocks =
     \<lparr> input_attributes = attrs,
       input_product = p,
       input_stocks = stocks,
       input_sku = Some (Some ''SKU-1''),
       input_name = None,
       input_track_inventory = None,
       input_weight = None,
       input_quantity_limit_per_customer = None,
       input_preorder = None,
       input_external_reference = None \<rparr>"

definition empty_store :: "ref_rows store" where
  "empty_store =
     \<lparr> variant_table = Map.empty,
       product_table = [10 \<mapsto> \<lparr> row_default_variant = None, row_search_index_dirty = False \<rparr>],
       next_variant_pk = 1,
       collaborator_rows = ([], []),
       events = [] \<rparr>"

text \<open>
  Two runs of \<open>save\<close> on the shirt: a first variant with the value red and one stock,
  then either a second new variant with the value blue or an update of the red one.
\<close>

definition red_input :: "T_INPUT_ITEM cleaned_input" where
  "red_input =
     input_of (Some (shirt configurable))
       (Some [(color, \<lparr>global_id = ''Attribute:1'', values_cleaned = [''red'']\<rparr>)])
       (Some [\<lparr>warehouse = ''W1'', quantity = 5\<rparr>])"

definition red_variant :: ProductVariant where
  "red_variant =
     \<lparr> pk = Some 1, name = Some ''red'', track_inventory = True,
       product = \<lparr> product_pk = 10, product_type = configurable, default_variant = Some 1,
                   search_index_dirty = True \<rparr> \<rparr>"

definition store_after_red :: "ref_rows store" where
  "store_after_red =
     \<lparr> variant_table =
         [1 \<mapsto> \<lparr> row_name = Some ''red'', row_track_inventory = True, row_product_id = 10 \<rparr>],
       product_table = [10 \<mapsto> \<lparr> row_default_variant = Some 1, row_search_index_dirty = True \<rparr>],
       next_variant_pk = 2,
       collaborator_rows =
         ([(Some 1, ''W1'', 5)],
          [(Some 1, [(color, \<lparr>global_id = ''Attribute:1'', values_cleaned = [''red'']\<rparr>)])]),
       events = [product_variant_created red_variant] \<rparr>"

definition blue_input :: "T_INPUT_ITEM cleaned_input" where
  "blue_input =
     input_of (Some (product red_variant))
       (Some [(color, \<lparr>global_id = ''Attribute:1'', values_cleaned = [''blue'']\<rparr>)]) None"

definition blue_variant :: ProductVariant where
  "blue_variant =
     \<lparr> pk = Some 2, name = Some ''blue'', track_inventory = True,
       product = product red_variant \<rparr>"

definition store_after_blue :: "ref_rows store" where
  "store_after_blue =
     \<lparr> variant_table =
         [1 \<mapsto> \<lparr> row_name = Some ''red'', row_track_inventory = True, row_product_id = 10 \<rparr>,
          2 \<mapsto> \<lparr> row_name = Some ''blue'', row_track_inventory = True, row_product_id = 10 \<rparr>],
       product_table = [10 \<mapsto> \<lparr> row_default_variant = Some 1, row_search_index_dirty = True \<rparr>],
       next_variant_pk = 3,
       collaborator_rows =
         ([(Some 1, ''W1'', 5)],
          [(Some 2, [(color, \<lparr>global_id = ''Attribute:1'', values_cleaned = [''blue'']\<rparr>)]),
           (Some 1, [(color, \<lparr>global_id = ''Attribute:1'', values_cleaned = [''red'']\<rparr>)])]),
       events = [product_variant_created red_variant, product_variant_created blue_variant] \<rparr>"

definition store_after_update :: "ref_rows store" where
  "store_after_update =
     store_after_red
       \<lparr> variant_table :=
           [1 \<mapsto> \<lparr> row_name = Some ''red'', row_track_inventory = False, row_product_id = 10 \<rparr>],
         events := [product_variant_created red_variant,
                    product_variant_updated (red_variant\<lparr>track_inventory := False\<rparr>)] \<rparr>"

section \<open>Evaluation of the reference instance\<close>

lemma ref_gid_1: "ref_to_global_id ''Attribute'' 1 = ''Attribute:1''"
  by (simp add: ref_to_global_id_def decimal.simps)

lemma ref_ids_color [simp]:
  "variant_attributes_ids ref_env configurable = {''Attribute:1''}"
  "variant_attributes_ids ref_env simple = {''Attribute:1''}"
  by (simp_all add: variant_attributes_ids_def ref_env_def configurable_def simple_def
        color_def ref_gid_1)

lemma ref_product_types [simp]:
  "has_variants configurable"
  "\<not> has_variants simple"
  "variant_attributes configurable = [color]"
  "variant_attributes simple = [color]"
  "value_required color"
  by (simp_all add: configurable_def simple_def color_def)

lemma ref_shirt [simp]:
  "product_type (shirt pt) = pt"
  "product_pk (shirt pt) = 10"
  "default_variant (shirt pt) = None"
  by (simp_all add: shirt_def)

lemma ref_input_of [simp]:
  "input_product (input_of p attrs stocks) = p"
  "input_attributes (input_of p attrs stocks) = attrs"
  "input_stocks (input_of p attrs stocks) = stocks"
  "input_weight (input_of p attrs stocks) = None"
  "input_quantity_limit_per_customer (input_of p attrs stocks) = None"
  "input_track_inventory (input_of p attrs stocks) = None"
  by (simp_all add: input_of_def)

lemma ref_env_fields [simp]:
  "base_clean_input ref_env info inst data = Inr data"
  "clean_weight ref_env = ref_clean_weight"
  "clean_quantity_limit ref_env = ref_clean_quantity_limit"
  "get_track_inventory_by_default ref_env info = info"
  by (simp_all add: ref_env_def)

lemma ref_dups [simp]:
  "get_duplicated_values [''W1'', ''W1''] = [''W1'']"
  "get_duplicated_values [''W2'', ''W2''] = [''W2'']"
  by (simp_all add: get_duplicated_values_def)

lemmas ref_save_defs =
  save_def set_track_inventory_def model_save_def product_save_def create_variant_stocks_def
  generate_and_set_variant_name_def call_event_def row_of_def Let_def
  ref_env_def ref_get_nodes_or_error_def ref_create_stocks_def ref_attribute_save_def
  ref_generate_variant_name_def new_instance_def input_of_def

lemma save_red:
  "save ref_env (Some True) (new_instance (shirt configurable)) red_input empty_store =
     Inr (red_variant, store_after_red)"
  by (simp add: ref_save_defs red_input_def red_variant_def store_after_red_def
        empty_store_def shirt_def)

lemma save_blue:
  "save ref_env (Some True) (new_instance (product red_variant)) blue_input store_after_red =
     Inr (blue_variant, store_after_blue)"
  by (simp add: ref_save_defs blue_input_def blue_variant_def store_after_blue_def
        red_variant_def store_after_red_def)

lemma save_update:
  "save ref_env (Some False) red_variant (input_of (Some (product red_variant)) None None)
     store_after_red =
     Inr (red_variant\<lparr>track_inventory := False\<rparr>, store_after_update)"
  by (simp add: ref_save_defs store_after_update_def red_variant_def store_after_red_def)

section \<open>Duplicated values and \<open>join\<close>\<close>

lemma set_get_duplicated_values:
  "set (get_duplicated_values vs) = {v. 1 < count_list vs v}"
proof -
  have "1 < count_list vs v \<Longrightarrow> v \<in> set vs" for v
    using count_list_0_iff [of vs v] by auto
  then show ?thesis by (auto simp add: get_duplicated_values_def)
qed

lemma distinct_get_duplicated_values: "distinct (get_duplicated_values vs)"
  by (simp add: get_duplicated_values_def)

lemma distinct_count_le_1: "distinct vs \<longleftrightarrow> (\<forall>v. count_list vs v \<le> 1)"
proof (induction vs)
  case Nil
  then show ?case by simp
next
  case (Cons a vs)
  show ?case
  proof
    assume d: "distinct (a # vs)"
    then have "count_list vs a = 0" by (simp add: count_list_0_iff)
    with d Cons show "\<forall>v. count_list (a # vs) v \<le> 1" by auto
  next
    assume c: "\<forall>v. count_list (a # vs) v \<le> 1"
    then have "count_list (a # vs) a \<le> 1" by blast
    then have "count_list vs a = 0" by simp
    then have na: "a \<notin> set vs" by (simp add: count_list_0_iff)
    have "count_list vs v \<le> 1" for v
      using c [rule_format, of v] by (simp split: if_splits)
    with Cons na show "distinct (a # vs)" by simp
  qed
qed

lemma get_duplicated_values_empty: "get_duplicated_values vs = [] \<longleftrightarrow> distinct vs"
proof -
  have "get_duplicated_values vs = [] \<longleftrightarrow> set (get_duplicated_values vs) = {}"
    by simp
  also have "\<dots> \<longleftrightarrow> (\<forall>v. \<not> 1 < count_list vs v)"
    unfolding set_get_duplicated_values by auto
  also have "\<dots> \<longleftrightarrow> distinct vs"
    unfolding distinct_count_le_1 by (simp add: not_less)
  finally show ?thesis .
qed

lemma sublist_prepend: "sublist x ys \<Longrightarrow> sublist x (ps @ ys)"
proof -
  assume "sublist x ys"
  then obtain a b where "ys = a @ x @ b" by (auto simp add: sublist_def)
  then have "ps @ ys = (ps @ a) @ x @ b" by simp
  then show ?thesis unfolding sublist_def by blast
qed

lemma sublist_join: "x \<in> set xs \<Longrightarrow> sublist x (join sep xs)"
proof (induction sep xs rule: join.induct)
  case (1 sep)
  then show ?case by simp
next
  case (2 sep x')
  then show ?case by simp
next
  case (3 sep x' y ys)
  show ?case
  proof (cases "x = x'")
    case True
    then show ?thesis by (simp add: prefix_imp_sublist)
  next
    case False
    with 3 have "sublist x (join sep (y # ys))" by simp
    then have "sublist x ((x' @ sep) @ join sep (y # ys))"
      by (rule sublist_prepend)
    then show ?thesis by simp
  qed
qed

section \<open>Stocks\<close>

text \<open>
  C5. When some warehouse ID occurs more than once in the stocks list,
  \<open>check_for_duplicates_in_stocks\<close> fails with an error under the field \<open>stocks\<close> with
  the code UNIQUE; its message is "Duplicated warehouse ID: " followed by the duplicated
  IDs, which are exactly the IDs that occur more than once, and every one of them is
  part of the message. A stocks list whose warehouse IDs are pairwise distinct passes.
\<close>

theorem check_for_duplicates_in_stocks_unique:
  "(\<not> distinct (map warehouse stocks) \<longrightarrow>
      check_for_duplicates_in_stocks stocks =
        Inl (FieldErrors ''stocks''
               (Error (''Duplicated warehouse ID: ''
                         @ join '', '' (get_duplicated_values (map warehouse stocks)))
                  UNIQUE [])) \<and>
      set (get_duplicated_values (map warehouse stocks)) =
        {w. 1 < count_list (map warehouse stocks) w} \<and>
      (\<forall>w. 1 < count_list (map warehouse stocks) w \<longrightarrow>
           sublist w (''Duplicated warehouse ID: ''
                        @ join '', '' (get_duplicated_values (map warehouse stocks))))) \<and>
   (distinct (map warehouse stocks) \<longrightarrow> check_for_duplicates_in_stocks stocks = Inr ())"
proof (intro conjI impI allI)
  assume "\<not> distinct (map warehouse stocks)"
  then show "check_for_duplicates_in_stocks stocks =
        Inl (FieldErrors ''stocks''
               (Error (''Duplicated warehouse ID: ''
                         @ join '', '' (get_duplicated_values (map warehouse stocks)))
                  UNIQUE []))"
    by (simp add: check_for_duplicates_in_stocks_def Let_def get_duplicated_values_empty)
next
  show "set (get_duplicated_values (map warehouse stocks)) =
        {w. 1 < count_list (map warehouse stocks) w}"
    by (rule set_get_duplicated_values)
next
  fix w
  assume "1 < count_list (map warehouse stocks) w"
  then have "w \<in> set (get_duplicated_values (map warehouse stocks))"
    by (simp add: set_get_duplicated_values)
  then have "sublist w (join '', '' (get_duplicated_values (map warehouse stocks)))"
    by (rule sublist_join)
  then show "sublist w (''Duplicated warehouse ID: ''
                        @ join '', '' (get_duplicated_values (map warehouse stocks)))"
    by (rule sublist_prepend)
next
  assume "distinct (map warehouse stocks)"
  then show "check_for_duplicates_in_stocks stocks = Inr ()"
    by (simp add: check_for_duplicates_in_stocks_def Let_def get_duplicated_values_empty)
qed

theorem check_for_duplicates_in_stocks_unique_witness:
  "check_for_duplicates_in_stocks
     [\<lparr>warehouse = ''W1'', quantity = 5\<rparr>, \<lparr>warehouse = ''W1'', quantity = 3\<rparr>] =
     Inl (FieldErrors ''stocks'' (Error ''Duplicated warehouse ID: W1'' UNIQUE [])) \<and>
   sublist ''W1'' ''Duplicated warehouse ID: W1'' \<and>
   check_for_duplicates_in_stocks
     [\<lparr>warehouse = ''W1'', quantity = 5\<rparr>, \<lparr>warehouse = ''W2'', quantity = 3\<rparr>] = Inr ()"
proof -
  let ?dup = "[\<lparr>warehouse = ''W1'', quantity = 5\<rparr>, \<lparr>warehouse = ''W1'', quantity = 3\<rparr>]"
  let ?ok = "[\<lparr>warehouse = ''W1'', quantity = 5\<rparr>, \<lparr>warehouse = ''W2'', quantity = 3\<rparr>]"
  have d: "\<not> distinct (map warehouse ?dup)" by simp
  have c: "1 < count_list (map warehouse ?dup) ''W1''" by simp
  have o: "distinct (map warehouse ?ok)" by simp
  have g: "get_duplicated_values (map warehouse ?dup) = [''W1'']"
    by (simp add: get_duplicated_values_def)
  from check_for_duplicates_in_stocks_unique [where stocks = ?dup] d c
  have a: "check_for_duplicates_in_stocks ?dup =
             Inl (FieldErrors ''stocks'' (Error ''Duplicated warehouse ID: W1'' UNIQUE []))"
    and b: "sublist ''W1'' ''Duplicated warehouse ID: W1''"
    unfolding g by simp_all
  from check_for_duplicates_in_stocks_unique [where stocks = ?ok] o
  have e: "check_for_duplicates_in_stocks ?ok = Inr ()" by blast
  from a b e show ?thesis by blast
qed

section \<open>Attribute cleaning\<close>

text \<open>
  C1. When the input names a product and at least one submitted attribute ID is not in
  the variant-attribute set of the product's type, \<open>clean_attributes\<close> fails with the
  code ATTRIBUTE_CANNOT_BE_ASSIGNED, and the \<open>params\<close> of the error hold under
  \<open>attributes\<close> exactly the submitted IDs that are not allowed.
\<close>

theorem clean_attributes_cannot_be_assigned:
  assumes "input_product ci = Some p"
    and "\<exists>a \<in> set (or_empty (input_attributes ci)).
           input_id a \<notin> variant_attributes_ids env (product_type p)"
  shows "clean_attributes env ci inst =
           Inl (Error ''Given attributes are not a variant attributes.''
                  ATTRIBUTE_CANNOT_BE_ASSIGNED
                  [(''attributes'',
                    {i. i \<in> input_id ` set (or_empty (input_attributes ci)) \<and>
                        i \<notin> variant_attributes_ids env (product_type p)})])"
proof -
  let ?inv = "set (map input_id (or_empty (input_attributes ci)))
                - variant_attributes_ids env (product_type p)"
  have ne: "?inv \<noteq> {}" using assms(2) by auto
  have eq: "?inv = {i. i \<in> input_id ` set (or_empty (input_attributes ci)) \<and>
                        i \<notin> variant_attributes_ids env (product_type p)}" by auto
  show ?thesis
    using ne unfolding eq[symmetric]
    by (simp add: clean_attributes_def get_product_def assms(1) Let_def)
qed

theorem clean_attributes_cannot_be_assigned_witness:
  "clean_attributes ref_env
     (input_of (Some (shirt configurable))
        (Some [\<lparr>input_id = ''Attribute:1'', input_values = [''red'']\<rparr>,
               \<lparr>input_id = ''Attribute:7'', input_values = [''xl'']\<rparr>,
               \<lparr>input_id = ''Attribute:9'', input_values = []\<rparr>]) None)
     (new_instance (shirt configurable)) =
   Inl (Error ''Given attributes are not a variant attributes.'' ATTRIBUTE_CANNOT_BE_ASSIGNED
          [(''attributes'', {''Attribute:7'', ''Attribute:9''})])"
proof -
  let ?ci = "input_of (Some (shirt configurable))
        (Some [\<lparr>input_id = ''Attribute:1'', input_values = [''red'']\<rparr>,
               \<lparr>input_id = ''Attribute:7'', input_values = [''xl'']\<rparr>,
               \<lparr>input_id = ''Attribute:9'', input_values = []\<rparr>]) None"
  have p: "input_product ?ci = Some (shirt configurable)"
    by (simp add: input_of_def)
  have h: "\<exists>a \<in> set (or_empty (input_attributes ?ci)).
             input_id a \<notin> variant_attributes_ids ref_env (product_type (shirt configurable))"
    by (simp add: input_of_def shirt_def)
  have s: "{i. i \<in> input_id ` set (or_empty (input_attributes ?ci)) \<and>
               i \<notin> variant_attributes_ids ref_env (product_type (shirt configurable))}
           = {''Attribute:7'', ''Attribute:9''}"
    by (auto simp add: input_of_def shirt_def)
  show ?thesis
    using clean_attributes_cannot_be_assigned [OF p h, of "new_instance (shirt configurable)"]
    unfolding s .
qed

text \<open>
  C9. The check of the submitted IDs comes before the branch on \<open>has_variants\<close>. For a
  product type without variants, an input with a submitted ID outside the
  variant-attribute set fails with ATTRIBUTE_CANNOT_BE_ASSIGNED; and whenever
  \<open>clean_attributes\<close> fails with INVALID and the message "Cannot assign attributes for
  product type without variants", the product type has no variants, attributes were
  submitted and every submitted ID is in the variant-attribute set.
\<close>

theorem attribute_check_precedes_has_variants:
  "(input_product ci = Some p \<and> \<not> has_variants (product_type p) \<and>
      (\<exists>a \<in> set (or_empty (input_attributes ci)).
          input_id a \<notin> variant_attributes_ids env (product_type p))
    \<longrightarrow> (\<exists>ids. clean_attributes env ci inst =
            Inl (Error ''Given attributes are not a variant attributes.''
                   ATTRIBUTE_CANNOT_BE_ASSIGNED [(''attributes'', ids)]))) \<and>
   (clean_attributes env ci inst =
      Inl (Error ''Cannot assign attributes for product type without variants'' INVALID ps)
    \<longrightarrow> (\<exists>q. input_product ci = Some q \<and> \<not> has_variants (product_type q) \<and>
             truthy (input_attributes ci) \<and>
             (\<forall>a \<in> set (or_empty (input_attributes ci)).
                 input_id a \<in> variant_attributes_ids env (product_type q))))"
proof (intro conjI impI)
  assume a: "input_product ci = Some p \<and> \<not> has_variants (product_type p) \<and>
      (\<exists>a \<in> set (or_empty (input_attributes ci)).
          input_id a \<notin> variant_attributes_ids env (product_type p))"
  then have "set (map input_id (or_empty (input_attributes ci)))
               - variant_attributes_ids env (product_type p) \<noteq> {}"
    by auto
  with a show "\<exists>ids. clean_attributes env ci inst =
            Inl (Error ''Given attributes are not a variant attributes.''
                   ATTRIBUTE_CANNOT_BE_ASSIGNED [(''attributes'', ids)])"
    by (simp add: clean_attributes_def get_product_def Let_def)
next
  assume r: "clean_attributes env ci inst =
      Inl (Error ''Cannot assign attributes for product type without variants'' INVALID ps)"
  show "\<exists>q. input_product ci = Some q \<and> \<not> has_variants (product_type q) \<and>
             truthy (input_attributes ci) \<and>
             (\<forall>a \<in> set (or_empty (input_attributes ci)).
                 input_id a \<in> variant_attributes_ids env (product_type q))"
  proof (cases "input_product ci")
    case None
    with r show ?thesis by (simp add: clean_attributes_def get_product_def)
  next
    case (Some q)
    let ?inv = "set (map input_id (or_empty (input_attributes ci)))
                  - variant_attributes_ids env (product_type q)"
    from r Some have e: "?inv = {}"
      by (simp add: clean_attributes_def get_product_def Let_def split: if_splits)
    from r Some e have nv: "\<not> has_variants (product_type q)"
      by (auto simp add: clean_attributes_def get_product_def Let_def
            split: if_splits sum.splits)
    from r Some e nv have t: "truthy (input_attributes ci)"
      by (simp add: clean_attributes_def get_product_def Let_def split: if_splits)
    from e have "\<forall>a \<in> set (or_empty (input_attributes ci)).
                 input_id a \<in> variant_attributes_ids env (product_type q)" by auto
    with Some nv t show ?thesis by simp
  qed
qed

theorem attribute_check_precedes_has_variants_witness:
  "(\<exists>ids. clean_attributes ref_env
      (input_of (Some (shirt simple))
         (Some [\<lparr>input_id = ''Attribute:7'', input_values = [''xl'']\<rparr>]) None)
      (new_instance (shirt simple)) =
      Inl (Error ''Given attributes are not a variant attributes.''
             ATTRIBUTE_CANNOT_BE_ASSIGNED [(''attributes'', ids)])) \<and>
   clean_attributes ref_env
     (input_of (Some (shirt simple))
        (Some [\<lparr>input_id = ''Attribute:1'', input_values = [''red'']\<rparr>]) None)
     (new_instance (shirt simple)) =
     Inl (Error ''Cannot assign attributes for product type without variants'' INVALID []) \<and>
   ''Attribute:1'' \<in> variant_attributes_ids ref_env simple"
proof -
  let ?bad = "input_of (Some (shirt simple))
         (Some [\<lparr>input_id = ''Attribute:7'', input_values = [''xl'']\<rparr>]) None"
  let ?good = "input_of (Some (shirt simple))
        (Some [\<lparr>input_id = ''Attribute:1'', input_values = [''red'']\<rparr>]) None"
  have h1: "input_product ?bad = Some (shirt simple) \<and> \<not> has_variants (product_type (shirt simple)) \<and>
      (\<exists>a \<in> set (or_empty (input_attributes ?bad)).
          input_id a \<notin> variant_attributes_ids ref_env (product_type (shirt simple)))"
    by simp
  have h2: "clean_attributes ref_env ?good (new_instance (shirt simple)) =
      Inl (Error ''Cannot assign attributes for product type without variants'' INVALID [])"
    by (simp add: clean_attributes_def get_product_def Let_def)
  from attribute_check_precedes_has_variants
         [where ci = ?bad and p = "shirt simple" and env = ref_env
            and inst = "new_instance (shirt simple)"] h1
  have c1: "\<exists>ids. clean_attributes ref_env ?bad (new_instance (shirt simple)) =
      Inl (Error ''Given attributes are not a variant attributes.''
             ATTRIBUTE_CANNOT_BE_ASSIGNED [(''attributes'', ids)])"
    by blast
  from attribute_check_precedes_has_variants
         [where ci = ?good and env = ref_env and ps = "[]"
            and inst = "new_instance (shirt simple)"] h2
  have c2: "''Attribute:1'' \<in> variant_attributes_ids ref_env simple"
    by auto
  from c1 h2 c2 show ?thesis by blast
qed

text \<open>
  C6, as the code has it. For a product type without variants: when attributes are
  submitted and every submitted ID is in the variant-attribute set, \<open>clean_attributes\<close>
  fails with INVALID and the message "Cannot assign attributes for product type without
  variants"; when no attribute is submitted (no list, or an empty one), it succeeds and
  returns the input as it was.
\<close>

theorem clean_attributes_without_variants:
  assumes "input_product ci = Some p" and "\<not> has_variants (product_type p)"
  shows "(truthy (input_attributes ci) \<and>
            (\<forall>a \<in> set (or_empty (input_attributes ci)).
                input_id a \<in> variant_attributes_ids env (product_type p))
          \<longrightarrow> clean_attributes env ci inst =
                Inl (Error ''Cannot assign attributes for product type without variants''
                       INVALID [])) \<and>
         (\<not> truthy (input_attributes ci)
          \<longrightarrow> clean_attributes env ci inst =
                Inr (assign_attributes ci (map_option (\<lambda>_. []) (input_attributes ci))))"
proof (intro conjI impI)
  assume a: "truthy (input_attributes ci) \<and>
            (\<forall>a \<in> set (or_empty (input_attributes ci)).
                input_id a \<in> variant_attributes_ids env (product_type p))"
  then have "set (map input_id (or_empty (input_attributes ci)))
               - variant_attributes_ids env (product_type p) = {}"
    by auto
  with a assms show "clean_attributes env ci inst =
                Inl (Error ''Cannot assign attributes for product type without variants''
                       INVALID [])"
    by (simp add: clean_attributes_def get_product_def Let_def)
next
  assume n: "\<not> truthy (input_attributes ci)"
  then have "or_empty (input_attributes ci) = []"
    by (cases "input_attributes ci" rule: truthy.cases) simp_all
  with n assms show "clean_attributes env ci inst =
                Inr (assign_attributes ci (map_option (\<lambda>_. []) (input_attributes ci)))"
    by (simp add: clean_attributes_def get_product_def Let_def)
qed

theorem clean_attributes_without_variants_witness:
  "clean_attributes ref_env
     (input_of (Some (shirt simple))
        (Some [\<lparr>input_id = ''Attribute:1'', input_values = [''blue'']\<rparr>]) None)
     (new_instance (shirt simple)) =
     Inl (Error ''Cannot assign attributes for product type without variants'' INVALID []) \<and>
   clean_attributes ref_env (input_of (Some (shirt simple)) (Some []) None)
     (new_instance (shirt simple)) =
     Inr (input_of (Some (shirt simple)) (Some []) None) \<and>
   clean_attributes ref_env (input_of (Some (shirt plain)) None None)
     (new_instance (shirt plain)) =
     Inr (input_of (Some (shirt plain)) None None)"
proof -
  let ?v = "new_instance (shirt simple)"
  let ?some = "input_of (Some (shirt simple))
        (Some [\<lparr>input_id = ''Attribute:1'', input_values = [''blue'']\<rparr>]) None"
  let ?empty = "input_of (Some (shirt simple)) (Some ([] :: AttributeValueInput list)) None"
  let ?none = "input_of (Some (shirt plain)) (None :: AttributeValueInput list option) None"
  have np: "\<not> has_variants (product_type (shirt plain))" by (simp add: plain_def)
  have a: "clean_attributes ref_env ?some ?v =
     Inl (Error ''Cannot assign attributes for product type without variants'' INVALID [])"
    using clean_attributes_without_variants
            [where ci = ?some and p = "shirt simple" and env = ref_env and inst = ?v]
    by simp
  have b: "clean_attributes ref_env ?empty ?v = Inr (input_of (Some (shirt simple)) (Some []) None)"
    using clean_attributes_without_variants
            [where ci = ?empty and p = "shirt simple" and env = ref_env and inst = ?v]
    by (simp add: assign_attributes_def input_of_def)
  have c: "clean_attributes ref_env ?none (new_instance (shirt plain)) =
             Inr (input_of (Some (shirt plain)) None None)"
    using clean_attributes_without_variants
            [where ci = ?none and p = "shirt plain" and env = ref_env
               and inst = "new_instance (shirt plain)"] np
    by (simp add: assign_attributes_def input_of_def)
  from a b c show ?thesis by blast
qed

text \<open>
  The claim C6 as stated (any submitted attribute fails with INVALID) does not hold: for
  a product type without variants and without variant attributes, a submitted attribute
  fails with ATTRIBUTE_CANNOT_BE_ASSIGNED.
\<close>

theorem clean_attributes_without_variants_counterexample:
  "\<not> has_variants plain \<and>
   truthy (Some [\<lparr>input_id = ''Attribute:1'', input_values = [''red'']\<rparr>]) \<and>
   clean_attributes ref_env
     (input_of (Some (shirt plain))
        (Some [\<lparr>input_id = ''Attribute:1'', input_values = [''red'']\<rparr>]) None)
     (new_instance (shirt plain)) =
   Inl (Error ''Given attributes are not a variant attributes.'' ATTRIBUTE_CANNOT_BE_ASSIGNED
          [(''attributes'', {''Attribute:1''})])"
  by (simp add: clean_attributes_def get_product_def Let_def variant_attributes_ids_def plain_def)


section \<open>The clean phase\<close>

text \<open>
  C3, as the code has it. \<open>clean_input\<close> fails with \<open>e\<close> exactly when \<open>e\<close> is the
  error of the first step that fails, in the order base clean, weight, quantity limit,
  stock duplicates (on a non-empty list only), attributes, preorder settings: each step
  is reached only when all the steps before it have passed, so one call reports one
  violation.
\<close>

theorem clean_input_first_error:
  "clean_input env info inst data = Inl e \<longleftrightarrow>
     base_clean_input env info inst data = Inl e \<or>
     (\<exists>c0. base_clean_input env info inst data = Inr c0 \<and>
        (clean_weight env c0 = Inl e \<or>
         (\<exists>c1. clean_weight env c0 = Inr c1 \<and>
            (clean_quantity_limit env c1 = Inl e \<or>
             (\<exists>c2. clean_quantity_limit env c1 = Inr c2 \<and>
                (truthy (input_stocks c2) \<and>
                   check_for_duplicates_in_stocks (or_empty (input_stocks c2)) = Inl e \<or>
                 (\<not> truthy (input_stocks c2) \<or>
                    check_for_duplicates_in_stocks (or_empty (input_stocks c2)) = Inr ()) \<and>
                 (clean_attributes env c2 inst = Inl e \<or>
                  (\<exists>c3. clean_attributes env c2 inst = Inr c3 \<and>
                     clean_preorder_settings env
                       (case input_sku c3 of
                          None \<Rightarrow> c3
                        | Some sku \<Rightarrow> c3\<lparr>input_sku := Some (clean_variant_sku env sku)\<rparr>) =
                     Inl e))))))))"
  unfolding clean_input_def
  by (auto split: sum.splits)

theorem clean_input_first_error_witness:
  "clean_input ref_env None (new_instance (shirt configurable))
     ((input_of (Some (shirt configurable)) (Some [])
        (Some [\<lparr>warehouse = ''W1'', quantity = 5\<rparr>, \<lparr>warehouse = ''W1'', quantity = 3\<rparr>]))
      \<lparr>input_weight := Some (- 1)\<rparr>) =
   Inl (FieldErrors ''weight'' (Error ''Weight cannot be negative.'' INVALID []))"
proof -
  let ?data = "(input_of (Some (shirt configurable)) (Some ([] :: AttributeValueInput list))
        (Some [\<lparr>warehouse = ''W1'', quantity = 5\<rparr>, \<lparr>warehouse = ''W1'', quantity = 3\<rparr>]))
      \<lparr>input_weight := Some (- 1)\<rparr>"
  have b: "base_clean_input ref_env None (new_instance (shirt configurable)) ?data = Inr ?data"
    by simp
  have w: "clean_weight ref_env ?data =
             Inl (FieldErrors ''weight'' (Error ''Weight cannot be negative.'' INVALID []))"
    by (simp add: ref_clean_weight_def)
  show ?thesis
    using clean_input_first_error
            [where env = ref_env and info = None and inst = "new_instance (shirt configurable)"
               and data = ?data
               and e = "FieldErrors ''weight'' (Error ''Weight cannot be negative.'' INVALID [])"]
          b w
    by blast
qed

text \<open>
  The claim C3 as stated (all violations are returned together) does not hold: the input
  below has duplicated stock warehouses and an attribute that is not a variant attribute;
  the clean phase returns the stocks error alone, although \<open>clean_attributes\<close> fails
  on the same input.
\<close>

theorem clean_input_aggregated_counterexample:
  "clean_input ref_env None (new_instance (shirt configurable))
     (input_of (Some (shirt configurable))
        (Some [\<lparr>input_id = ''Attribute:7'', input_values = [''xl'']\<rparr>])
        (Some [\<lparr>warehouse = ''W1'', quantity = 5\<rparr>, \<lparr>warehouse = ''W1'', quantity = 3\<rparr>])) =
     Inl (FieldErrors ''stocks'' (Error ''Duplicated warehouse ID: W1'' UNIQUE [])) \<and>
   clean_attributes ref_env
     (input_of (Some (shirt configurable))
        (Some [\<lparr>input_id = ''Attribute:7'', input_values = [''xl'']\<rparr>])
        (Some [\<lparr>warehouse = ''W1'', quantity = 5\<rparr>, \<lparr>warehouse = ''W1'', quantity = 3\<rparr>]))
     (new_instance (shirt configurable)) =
     Inl (Error ''Given attributes are not a variant attributes.'' ATTRIBUTE_CANNOT_BE_ASSIGNED
            [(''attributes'', {''Attribute:7''})])"
  by (simp add: clean_input_def ref_clean_weight_def ref_clean_quantity_limit_def
        check_for_duplicates_in_stocks_def clean_attributes_def get_product_def Let_def)

text \<open>
  C8, as the code has it. For an input whose product reference is null,
  \<open>clean_attributes\<close> fails with INVALID under the field \<open>product\<close> before it looks at
  any attribute; \<open>clean_input\<close> returns this error when the base clean, the weight
  check, the quantity-limit check and the stock-duplicates check have passed.
\<close>

theorem null_product_invalid:
  assumes "input_product ci = None"
  shows "clean_attributes env ci inst =
           Inl (FieldErrors ''product'' (Error ''Product cannot be set empty.'' INVALID [])) \<and>
         (base_clean_input env info inst data = Inr c0 \<and>
          clean_weight env c0 = Inr c1 \<and>
          clean_quantity_limit env c1 = Inr ci \<and>
          (truthy (input_stocks ci) \<longrightarrow>
             check_for_duplicates_in_stocks (or_empty (input_stocks ci)) = Inr ())
          \<longrightarrow> clean_input env info inst data =
                Inl (FieldErrors ''product'' (Error ''Product cannot be set empty.'' INVALID [])))"
proof -
  have a: "clean_attributes env ci inst =
           Inl (FieldErrors ''product'' (Error ''Product cannot be set empty.'' INVALID []))"
    using assms by (simp add: clean_attributes_def get_product_def)
  then show ?thesis
    by (auto simp add: clean_input_def)
qed

theorem null_product_invalid_witness:
  "clean_attributes ref_env (input_of None (Some [\<lparr>input_id = ''Attribute:7'', input_values = []\<rparr>]) None)
     (new_instance (shirt configurable)) =
     Inl (FieldErrors ''product'' (Error ''Product cannot be set empty.'' INVALID [])) \<and>
   clean_input ref_env None (new_instance (shirt configurable))
     (input_of None (Some [\<lparr>input_id = ''Attribute:7'', input_values = []\<rparr>])
        (Some [\<lparr>warehouse = ''W1'', quantity = 1\<rparr>, \<lparr>warehouse = ''W2'', quantity = 4\<rparr>])) =
     Inl (FieldErrors ''product'' (Error ''Product cannot be set empty.'' INVALID []))"
proof -
  let ?v = "new_instance (shirt configurable)"
  let ?a = "input_of None (Some [\<lparr>input_id = ''Attribute:7'', input_values = []\<rparr>]) None"
  let ?b = "input_of None (Some [\<lparr>input_id = ''Attribute:7'', input_values = []\<rparr>])
        (Some [\<lparr>warehouse = ''W1'', quantity = 1\<rparr>, \<lparr>warehouse = ''W2'', quantity = 4\<rparr>])"
  have na: "input_product ?a = None" and nb: "input_product ?b = None" by simp_all
  have steps: "base_clean_input ref_env None ?v ?b = Inr ?b \<and>
          clean_weight ref_env ?b = Inr ?b \<and>
          clean_quantity_limit ref_env ?b = Inr ?b \<and>
          (truthy (input_stocks ?b) \<longrightarrow>
             check_for_duplicates_in_stocks (or_empty (input_stocks ?b)) = Inr ())"
    by (simp add: ref_clean_weight_def ref_clean_quantity_limit_def
          check_for_duplicates_in_stocks_def get_duplicated_values_def)
  from null_product_invalid [OF na, where env = ref_env and inst = ?v]
  have x: "clean_attributes ref_env ?a ?v =
     Inl (FieldErrors ''product'' (Error ''Product cannot be set empty.'' INVALID []))"
    by blast
  from null_product_invalid
         [OF nb, where env = ref_env and inst = ?v and info = None and data = ?b
            and ?c0.0 = ?b and ?c1.0 = ?b] steps
  have y: "clean_input ref_env None ?v ?b =
     Inl (FieldErrors ''product'' (Error ''Product cannot be set empty.'' INVALID []))"
    by blast
  from x y show ?thesis by blast
qed

text \<open>
  The claim C8 as stated (the product error comes before any further validation) does
  not hold: with a null product and duplicated stock warehouses the clean phase fails
  with the stocks error.
\<close>

theorem null_product_counterexample:
  "input_product (input_of None (Some [])
        (Some [\<lparr>warehouse = ''W2'', quantity = 1\<rparr>, \<lparr>warehouse = ''W2'', quantity = 4\<rparr>])
      :: AttributeValueInput cleaned_input) = None \<and>
   clean_input ref_env None (new_instance (shirt configurable))
     (input_of None (Some [])
        (Some [\<lparr>warehouse = ''W2'', quantity = 1\<rparr>, \<lparr>warehouse = ''W2'', quantity = 4\<rparr>])) =
     Inl (FieldErrors ''stocks'' (Error ''Duplicated warehouse ID: W2'' UNIQUE []))"
  by (simp add: clean_input_def ref_clean_weight_def ref_clean_quantity_limit_def
        check_for_duplicates_in_stocks_def Let_def)

section \<open>Track inventory\<close>

text \<open>
  C10. When the shop default resolves to \<open>None\<close>, \<open>set_track_inventory\<close> returns the
  variant as it was, whatever the input says. When the shop default is \<open>d\<close>, the
  variant's \<open>track_inventory\<close> becomes the explicit value of the input if there is one
  and \<open>d\<close> otherwise. No other field of the variant changes (\<open>more\<close> stands for every
  field the record does not list).
\<close>

theorem set_track_inventory_frame:
  "(get_track_inventory_by_default env info = None \<longrightarrow>
      set_track_inventory env info inst ci = inst) \<and>
   (get_track_inventory_by_default env info = Some d \<longrightarrow>
      set_track_inventory env info inst ci =
        inst\<lparr>track_inventory := (case input_track_inventory ci of None \<Rightarrow> d | Some t \<Rightarrow> t)\<rparr>) \<and>
   pk (set_track_inventory env info inst ci) = pk inst \<and>
   name (set_track_inventory env info inst ci) = name inst \<and>
   product (set_track_inventory env info inst ci) = product inst \<and>
   ProductVariant.more (set_track_inventory env info inst ci) = ProductVariant.more inst"
  by (simp add: set_track_inventory_def split: option.splits)

theorem set_track_inventory_frame_witness:
  "set_track_inventory ref_env None (new_instance (shirt configurable))
     ((input_of None None None :: T_INPUT_ITEM cleaned_input)\<lparr>input_track_inventory := Some False\<rparr>)
     = new_instance (shirt configurable) \<and>
   set_track_inventory ref_env (Some True) (new_instance (shirt configurable))
     ((input_of None None None :: T_INPUT_ITEM cleaned_input)\<lparr>input_track_inventory := Some False\<rparr>)
     = (new_instance (shirt configurable))\<lparr>track_inventory := False\<rparr> \<and>
   set_track_inventory ref_env (Some False) (new_instance (shirt configurable))
     (input_of None None None :: T_INPUT_ITEM cleaned_input)
     = (new_instance (shirt configurable))\<lparr>track_inventory := False\<rparr>"
proof -
  let ?v = "new_instance (shirt configurable)"
  let ?explicit = "(input_of None None None :: T_INPUT_ITEM cleaned_input)
                     \<lparr>input_track_inventory := Some False\<rparr>"
  let ?silent = "input_of None None None :: T_INPUT_ITEM cleaned_input"
  have g: "get_track_inventory_by_default ref_env i = i" for i
    by (simp add: ref_env_def)
  from set_track_inventory_frame
         [where env = ref_env and info = None and inst = ?v and ci = ?explicit
          and d = True]
  have a: "set_track_inventory ref_env None ?v ?explicit = ?v"
    by (simp add: g)
  from set_track_inventory_frame
         [where env = ref_env and info = "Some True" and inst = ?v
          and ci = ?explicit and d = True]
  have b: "set_track_inventory ref_env (Some True) ?v ?explicit = ?v\<lparr>track_inventory := False\<rparr>"
    by (simp add: g)
  from set_track_inventory_frame
         [where env = ref_env and info = "Some False" and inst = ?v
          and ci = ?silent and d = False]
  have c: "set_track_inventory ref_env (Some False) ?v ?silent = ?v\<lparr>track_inventory := False\<rparr>"
    by (simp add: g)
  from a b c show ?thesis by blast
qed

section \<open>Saving\<close>

lemma model_save_facts:
  "product (fst (model_save v s)) = product v"
  "pk (fst (model_save v s)) = Some (case pk v of None \<Rightarrow> next_variant_pk s | Some k \<Rightarrow> k)"
  "product_table (snd (model_save v s)) = product_table s"
  "events (snd (model_save v s)) = events s"
  by (simp_all add: model_save_def Let_def split: option.splits)

lemma product_save_facts:
  assumes "product_save p fs s = Inr s'"
  shows "events s' = events s"
    and "k \<noteq> product_pk p \<Longrightarrow> product_table s' k = product_table s k"
    and "map_option row_default_variant (product_table s' (product_pk p)) =
           (if ''default_variant'' \<in> set fs then Some (default_variant p)
            else map_option row_default_variant (product_table s (product_pk p)))"
  using assms by (auto simp add: product_save_def split: option.splits)

lemma create_variant_stocks_facts:
  assumes "create_variant_stocks env v st s = Inr s'"
  shows "events s' = events s" and "product_table s' = product_table s"
  using assms by (auto simp add: create_variant_stocks_def Let_def split: sum.splits)

lemma generate_and_set_variant_name_facts:
  "product (fst (generate_and_set_variant_name env v sku s)) = product v"
  "pk (fst (generate_and_set_variant_name env v sku s)) = pk v"
  "product_table (snd (generate_and_set_variant_name env v sku s)) = product_table s"
  "events (snd (generate_and_set_variant_name env v sku s)) = events s"
  by (simp_all add: generate_and_set_variant_name_def Let_def)

lemma set_track_inventory_facts:
  "pk (set_track_inventory env info v ci) = pk v"
  "product (set_track_inventory env info v ci) = product v"
  by (simp_all add: set_track_inventory_def split: option.splits)

lemma save_unfold:
  "save env info inst ci s =
     (case default_step (fst (model_save (set_track_inventory env info inst ci) s))
             (snd (model_save (set_track_inventory env info inst ci) s)) of
        Inl e \<Rightarrow> Inl e
      | Inr r3 \<Rightarrow>
     (case stocks_step env (fst r3) ci (snd r3) of
        Inl e \<Rightarrow> Inl e
      | Inr s3 \<Rightarrow>
     (case attributes_step env (fst r3) ci s3 of
        Inl e \<Rightarrow> Inl e
      | Inr s4 \<Rightarrow>
     (case product_save (product (dirty (fst (name_step env (fst r3) ci s4))))
             [''search_index_dirty''] (snd (name_step env (fst r3) ci s4)) of
        Inl e \<Rightarrow> Inl e
      | Inr s6 \<Rightarrow>
          Inr (dirty (fst (name_step env (fst r3) ci s4)),
               call_event (if pk inst = None then product_variant_created
                           else product_variant_updated)
                 (dirty (fst (name_step env (fst r3) ci s4))) s6)))))"
  unfolding save_def default_step_def stocks_step_def attributes_step_def name_step_def
    dirty_def Let_def case_prod_beta
  by (rule refl)

lemma save_success:
  assumes "save env info inst ci s = Inr (inst', s')"
  shows "\<exists>v3 s2 s3 s4 s6.
           default_step (fst (model_save (set_track_inventory env info inst ci) s))
             (snd (model_save (set_track_inventory env info inst ci) s)) = Inr (v3, s2) \<and>
           stocks_step env v3 ci s2 = Inr s3 \<and>
           attributes_step env v3 ci s3 = Inr s4 \<and>
           product_save (product inst') [''search_index_dirty'']
             (snd (name_step env v3 ci s4)) = Inr s6 \<and>
           inst' = dirty (fst (name_step env v3 ci s4)) \<and>
           s' = call_event (if pk inst = None then product_variant_created
                            else product_variant_updated) inst' s6"
  using assms
  by (auto simp add: save_unfold split: sum.splits)

lemma default_step_facts:
  assumes "default_step v s = Inr (v', s')"
  shows "pk v' = pk v"
    and "product_pk (product v') = product_pk (product v)"
    and "events s' = events s"
    and "default_variant (product v) = None \<Longrightarrow> default_variant (product v') = pk v"
    and "default_variant (product v) = None \<Longrightarrow>
           map_option row_default_variant (product_table s' (product_pk (product v))) = Some (pk v)"
    and "default_variant (product v) \<noteq> None \<Longrightarrow> v' = v \<and> s' = s"
  using assms
  by (auto simp add: default_step_def Let_def product_save_def
        split: if_splits sum.splits option.splits)

lemma stocks_step_facts:
  assumes "stocks_step env v ci s = Inr s'"
  shows "events s' = events s" and "product_table s' = product_table s"
  using assms
  by (auto simp add: stocks_step_def split: if_splits dest: create_variant_stocks_facts)

lemma attributes_step_facts:
  assumes "attributes_step env v ci s = Inr s'"
  shows "events s' = events s" and "product_table s' = product_table s"
  using assms by (auto simp add: attributes_step_def split: if_splits sum.splits)

lemma name_step_facts:
  "product (fst (name_step env v ci s)) = product v"
  "pk (fst (name_step env v ci s)) = pk v"
  "product_table (snd (name_step env v ci s)) = product_table s"
  "events (snd (name_step env v ci s)) = events s"
  by (simp_all add: name_step_def generate_and_set_variant_name_facts)

lemma dirty_facts:
  "pk (dirty v) = pk v"
  "default_variant (product (dirty v)) = default_variant (product v)"
  "product_pk (product (dirty v)) = product_pk (product v)"
  by (simp_all add: dirty_def)

text \<open>
  C7. A run of \<open>save\<close> that succeeds adds exactly one event to the log of the plugin
  manager: \<open>product_variant_created\<close> of the saved variant when the variant had no
  primary key before the call, \<open>product_variant_updated\<close> of it when it had one. The
  choice reads the key as it was before the variant row is written.
\<close>

theorem save_emits_one_event:
  assumes "save env info inst ci s = Inr (inst', s')"
  shows "events s' =
           events s @ [if pk inst = None then product_variant_created inst'
                       else product_variant_updated inst']"
proof -
  let ?r1 = "model_save (set_track_inventory env info inst ci) s"
  from save_success [OF assms] obtain v3 s2 s3 s4 s6 where
    d: "default_step (fst ?r1) (snd ?r1) = Inr (v3, s2)"
    and st: "stocks_step env v3 ci s2 = Inr s3"
    and at: "attributes_step env v3 ci s3 = Inr s4"
    and ps: "product_save (product inst') [''search_index_dirty'']
               (snd (name_step env v3 ci s4)) = Inr s6"
    and res: "s' = call_event (if pk inst = None then product_variant_created
                               else product_variant_updated) inst' s6"
    by blast
  have "events s6 = events (snd (name_step env v3 ci s4))"
    using ps by (rule product_save_facts)
  also have "\<dots> = events s4" by (rule name_step_facts)
  also have "\<dots> = events s3" using at by (rule attributes_step_facts)
  also have "\<dots> = events s2" using st by (rule stocks_step_facts)
  also have "\<dots> = events (snd ?r1)" using d by (rule default_step_facts)
  also have "\<dots> = events s" by (simp add: model_save_facts)
  finally show ?thesis using res by (simp add: call_event_def)
qed

theorem save_emits_one_event_witness:
  "save ref_env (Some True) (new_instance (shirt configurable)) red_input empty_store =
     Inr (red_variant, store_after_red) \<and>
   events store_after_red = events empty_store @ [product_variant_created red_variant] \<and>
   save ref_env (Some False) red_variant (input_of (Some (product red_variant)) None None)
     store_after_red =
     Inr (red_variant\<lparr>track_inventory := False\<rparr>, store_after_update) \<and>
   events store_after_update =
     events store_after_red @ [product_variant_updated (red_variant\<lparr>track_inventory := False\<rparr>)]"
proof -
  have a: "events store_after_red = events empty_store @ [product_variant_created red_variant]"
    using save_emits_one_event [OF save_red] by (simp add: new_instance_def)
  have b: "events store_after_update =
             events store_after_red
               @ [product_variant_updated (red_variant\<lparr>track_inventory := False\<rparr>)]"
    using save_emits_one_event [OF save_update] by (simp add: red_variant_def)
  from a b save_red save_update show ?thesis by blast
qed

text \<open>
  C4. After a run of \<open>save\<close> that succeeds, the saved variant has a primary key (a new
  one when it had none). If the product of the variant had no default variant before
  the call, its default-variant reference is the saved variant, on the object and in
  the product's row; if it had one, the reference is the same as before, on the object
  and in the row. The reference holds at most one variant by its type.
\<close>

theorem save_default_variant:
  assumes "save env info inst ci s = Inr (inst', s')"
  shows "pk inst' = Some (case pk inst of None \<Rightarrow> next_variant_pk s | Some k \<Rightarrow> k) \<and>
         (default_variant (product inst) = None \<longrightarrow>
            default_variant (product inst') = pk inst' \<and>
            map_option row_default_variant (product_table s' (product_pk (product inst))) =
              Some (pk inst')) \<and>
         (default_variant (product inst) \<noteq> None \<longrightarrow>
            default_variant (product inst') = default_variant (product inst) \<and>
            map_option row_default_variant (product_table s' (product_pk (product inst))) =
              map_option row_default_variant (product_table s (product_pk (product inst))))"
proof -
  let ?r1 = "model_save (set_track_inventory env info inst ci) s"
  let ?k = "product_pk (product inst)"
  from save_success [OF assms] obtain v3 s2 s3 s4 s6 where
    d: "default_step (fst ?r1) (snd ?r1) = Inr (v3, s2)"
    and st: "stocks_step env v3 ci s2 = Inr s3"
    and at: "attributes_step env v3 ci s3 = Inr s4"
    and ps: "product_save (product inst') [''search_index_dirty'']
               (snd (name_step env v3 ci s4)) = Inr s6"
    and v5: "inst' = dirty (fst (name_step env v3 ci s4))"
    and res: "s' = call_event (if pk inst = None then product_variant_created
                               else product_variant_updated) inst' s6"
    by blast
  have p1: "product (fst ?r1) = product inst"
    by (simp add: model_save_facts set_track_inventory_facts)
  have k1: "pk (fst ?r1) = Some (case pk inst of None \<Rightarrow> next_variant_pk s | Some k \<Rightarrow> k)"
    by (simp add: model_save_facts set_track_inventory_facts)
  have t1: "product_table (snd ?r1) = product_table s"
    by (simp add: model_save_facts)
  have k3: "pk v3 = pk (fst ?r1)" using d by (rule default_step_facts)
  have q3: "product_pk (product v3) = ?k"
    using default_step_facts(2) [OF d] p1 by simp
  have t4: "product_table (snd (name_step env v3 ci s4)) = product_table s2"
    using attributes_step_facts(2) [OF at] stocks_step_facts(2) [OF st]
    by (simp add: name_step_facts)
  have k5: "pk inst' = pk (fst ?r1)"
    using v5 k3 by (simp add: dirty_facts name_step_facts)
  have d5: "default_variant (product inst') = default_variant (product v3)"
    using v5 by (simp add: dirty_facts name_step_facts)
  have q5: "product_pk (product inst') = ?k"
    using v5 q3 by (simp add: dirty_facts name_step_facts)
  have row: "map_option row_default_variant (product_table s' ?k) =
             map_option row_default_variant (product_table s2 ?k)"
    using product_save_facts(3) [OF ps] q5 t4 res by (simp add: call_event_def)
  have none: "default_variant (product inst') = pk inst' \<and>
              map_option row_default_variant (product_table s' ?k) = Some (pk inst')"
    if n: "default_variant (product inst) = None"
  proof -
    from n p1 have n1: "default_variant (product (fst ?r1)) = None" by simp
    have "default_variant (product v3) = pk (fst ?r1)"
      using d n1 by (rule default_step_facts)
    moreover have "map_option row_default_variant
                     (product_table s2 (product_pk (product (fst ?r1)))) = Some (pk (fst ?r1))"
      using d n1 by (rule default_step_facts)
    ultimately show ?thesis using d5 k5 row p1 by simp
  qed
  have some: "default_variant (product inst') = default_variant (product inst) \<and>
              map_option row_default_variant (product_table s' ?k) =
                map_option row_default_variant (product_table s ?k)"
    if n: "default_variant (product inst) \<noteq> None"
  proof -
    from n p1 have n1: "default_variant (product (fst ?r1)) \<noteq> None" by simp
    have "v3 = fst ?r1 \<and> s2 = snd ?r1" using d n1 by (rule default_step_facts)
    then show ?thesis using d5 row p1 t1 by simp
  qed
  from k5 k1 none some show ?thesis by simp
qed

theorem save_default_variant_witness:
  "save ref_env (Some True) (new_instance (shirt configurable)) red_input empty_store =
     Inr (red_variant, store_after_red) \<and>
   default_variant (product (new_instance (shirt configurable))) = None \<and>
   pk red_variant = Some 1 \<and>
   default_variant (product red_variant) = Some 1 \<and>
   map_option row_default_variant (product_table store_after_red 10) = Some (Some 1) \<and>
   save ref_env (Some True) (new_instance (product red_variant)) blue_input store_after_red =
     Inr (blue_variant, store_after_blue) \<and>
   pk blue_variant = Some 2 \<and>
   default_variant (product blue_variant) = Some 1 \<and>
   map_option row_default_variant (product_table store_after_blue 10) = Some (Some 1)"
proof -
  have n: "default_variant (product (new_instance (shirt configurable))) = None"
    by (simp add: new_instance_def)
  have k: "product_pk (product (new_instance (shirt configurable))) = 10"
    "pk (new_instance (shirt configurable)) = None"
    "next_variant_pk empty_store = 1"
    by (simp_all add: new_instance_def empty_store_def)
  have a: "pk red_variant = Some 1 \<and> default_variant (product red_variant) = Some 1 \<and>
           map_option row_default_variant (product_table store_after_red 10) = Some (Some 1)"
    using save_default_variant [OF save_red] n k by auto
  have m: "default_variant (product (new_instance (product red_variant))) = Some 1"
    "product_pk (product (new_instance (product red_variant))) = 10"
    "pk (new_instance (product red_variant)) = None"
    "next_variant_pk store_after_red = 2"
    by (simp_all add: new_instance_def red_variant_def store_after_red_def)
  have b: "pk blue_variant = Some 2 \<and> default_variant (product blue_variant) = Some 1 \<and>
           map_option row_default_variant (product_table store_after_blue 10) = Some (Some 1)"
    using save_default_variant [OF save_blue] m a by auto
  from a b n save_red save_blue show ?thesis by blast
qed

end
